theory Spec2Isabelle
  imports Main "HOL-Library.Multiset"
begin

section \<open>The Multi-LLM platform: a shallow embedding of app.py\<close>

text \<open>
  The request handlers of \<^verbatim>\<open>src/app.py\<close> are embedded as functions over an explicit
  database value. A Python \<^verbatim>\<open>str\<close> is a \<^typ>\<open>string\<close>, one \<^typ>\<open>char\<close> standing for one
  character of the Python string; integers are \<^typ>\<open>int\<close>; a value that
  \<^verbatim>\<open>dict.get\<close> may report as \<^verbatim>\<open>None\<close> is an \<^typ>\<open>'a option\<close>.
\<close>

subsection \<open>Values exchanged with the client\<close>

datatype json = JBool bool | JStr string | JInt int | JNull

type_synonym json_object = "(string \<times> json) list"

text \<open>Exceptions that leave a handler uncaught (Flask answers 500).\<close>

datatype py_error = TypeError | IntegrityError | OverflowError

subsection \<open>The tables of init\_db\<close>

type_synonym timestamp = nat

record conversation_row =
  c_id :: int
  c_user_id :: int
  c_model_name :: string
  c_domain :: string
  c_title :: string
  c_created_at :: timestamp

record message_row =
  m_id :: int
  m_conversation_id :: int
  m_user_id :: int
  m_role :: string
  m_content :: string
  m_input_type :: string
  m_file_path :: "string option"
  m_created_at :: timestamp

record uploaded_file_row =
  f_id :: int
  f_user_id :: int
  f_conversation_id :: "string option"
  f_filename :: string
  f_file_path :: string
  f_file_type :: string
  f_uploaded_at :: timestamp

record database =
  conversations :: "conversation_row list"
  messages :: "message_row list"
  uploaded_files :: "uploaded_file_row list"

text \<open>
  \<^verbatim>\<open>INTEGER PRIMARY KEY AUTOINCREMENT\<close>: a new row gets an id one larger than the largest
  id the table has held. The application never deletes a row, so that is the largest id
  in the table; the first row of an empty table gets 1.
\<close>

definition next_rowid :: "int list \<Rightarrow> int" where
  "next_rowid ids = (if ids = [] then 1 else Max (set ids) + 1)"

subsection \<open>The sqlite3 connection\<close>

text \<open>
  \<^verbatim>\<open>sqlite3.connect\<close> opens the database file; the statements executed on the connection
  change its working copy only, \<^verbatim>\<open>conn.commit()\<close> writes the working copy to the file,
  and \<^verbatim>\<open>conn.close()\<close> without a commit loses the pending changes.
\<close>

record connection =
  committed :: database
  working :: database

definition connect :: "database \<Rightarrow> connection" where
  "connect db = \<lparr>committed = db, working = db\<rparr>"

definition commit :: "connection \<Rightarrow> connection" where
  "commit conn = conn\<lparr>committed := working conn\<rparr>"

definition close :: "connection \<Rightarrow> database" where
  "close conn = committed conn"

subsection \<open>The domain registry MODELS\<close>

record domain_info =
  d_name :: string
  d_icon :: "nat list"
  d_models :: "string list"
  d_description :: string

text \<open>The icon of a domain is written as its list of Unicode code points.\<close>

definition MODELS :: "(string \<times> domain_info) list" where
  "MODELS =
    [(''healthcare'',
        \<lparr>d_name = ''Healthcare'', d_icon = [127973],
         d_models = [''Jayasimma/bharatbuddy'', ''Jayasimma/Puzhavan''],
         d_description = ''Medical advice, health information, and wellness guidance''\<rparr>),
     (''agriculture'',
        \<lparr>d_name = ''Agriculture'', d_icon = [127806],
         d_models = [''Jayasimma/gennai'', ''Jayasimma/Puzhavan''],
         d_description = ''Farming techniques, crop management, and agricultural practices''\<rparr>),
     (''coding'',
        \<lparr>d_name = ''Coding'', d_icon = [128187],
         d_models = [''Jayasimma/codemium_ai'', ''Jayasimma/creaton-ai''],
         d_description = ''Programming help, code review, and software development''\<rparr>),
     (''education'',
        \<lparr>d_name = ''Education'', d_icon = [128218],
         d_models = [''Jayasimma/Buddyllama'', ''Jayasimma/creaton-ai''],
         d_description = ''Learning resources, tutoring, and educational content''\<rparr>),
     (''nature_medicine'',
        \<lparr>d_name = ''Natural Medicine'', d_icon = [127807],
         d_models = [''Jayasimma/Puzhavan'', ''Jayasimma/bharatbuddy''],
         d_description = ''Herbal remedies, traditional medicine, and natural healing''\<rparr>),
     (''tamil'',
        \<lparr>d_name = ''Tamil Language'', d_icon = [127470, 127475],
         d_models = [''conceptsintamil/tamil-llama-7b-instruct-v0.2'', ''Jayasimma/Buddyllama''],
         d_description = ''Tamil language support, translation, and cultural information''\<rparr>)]"

text \<open>Every model identifier that some domain lists.\<close>

definition registered_models :: "string list" where
  "registered_models = concat (map (\<lambda>(k, info). d_models info) MODELS)"

subsection \<open>Responses of the handlers\<close>

type_synonym history_row = "int \<times> string \<times> string \<times> string \<times> timestamp \<times> nat"

type_synonym transcript_row = "string \<times> string \<times> timestamp"

datatype response =
    Redirect string string
  | Json json_object nat
  | Abort nat
  | Unhandled py_error
  | Render_chat string string domain_info
  | Render_history "history_row list"
  | Render_view_conversation conversation_row "transcript_row list"

text \<open>
  \<^term>\<open>Redirect endpoint message\<close> is \<^verbatim>\<open>redirect(url_for(endpoint))\<close> after
  \<^verbatim>\<open>flash(message, ...)\<close>; \<^term>\<open>Json body status\<close> is \<^verbatim>\<open>jsonify(body), status\<close>;
  \<^term>\<open>Unhandled e\<close> is an exception that no handler code catches.

  \<^verbatim>\<open>login_required\<close>: the session is the user id it holds, if any.
\<close>

definition login_redirect :: response where
  "login_redirect = Redirect ''login'' ''Please login to access this page.''"

subsection \<open>The chat page route\<close>

text \<open>\<^verbatim>\<open>s.replace(old, new)\<close> for one-character \<^verbatim>\<open>old\<close> and \<^verbatim>\<open>new\<close>.\<close>

definition replace_char :: "char \<Rightarrow> char \<Rightarrow> string \<Rightarrow> string" where
  "replace_char old new s = map (\<lambda>c. if c = old then new else c) s"

definition chat :: "int option \<Rightarrow> string \<Rightarrow> string \<Rightarrow> response" where
  "chat session domain model_name =
     (case session of
        None \<Rightarrow> login_redirect
      | Some uid \<Rightarrow>
          (case map_of MODELS domain of
             None \<Rightarrow> Redirect ''select_domain'' ''Invalid domain selected.''
           | Some info \<Rightarrow> Render_chat domain (replace_char CHR ''_'' CHR ''/'' model_name) info))"

text \<open>
  Modelled from the spec: the link to the chat page is built by a template that is not
  among the source files; the encoding taken here replaces every slash of the model
  identifier by an underscore, which the route's own comment undoes.
\<close>

definition encode_model_name :: "string \<Rightarrow> string" where
  "encode_model_name model_name = replace_char CHR ''/'' CHR ''_'' model_name"

subsection \<open>Title of a new conversation\<close>

text \<open>
  \<^verbatim>\<open>user_message[:50] + '...' if len(user_message) > 50 else user_message\<close>
\<close>

definition make_title :: "string \<Rightarrow> string" where
  "make_title user_message =
     (if length user_message > 50 then take 50 user_message @ ''...'' else user_message)"

subsection \<open>The chat turn: api\_chat\<close>

text \<open>
  The JSON body of the request, as \<^verbatim>\<open>data.get\<close> reads it: a key that is absent gives
  \<^verbatim>\<open>None\<close>.
\<close>

record chat_request =
  rq_model :: "string option"
  rq_message :: "string option"
  rq_conversation_id :: "int option"
  rq_domain :: "string option"

text \<open>
  What the handler reads from outside the database: the inference backend
  (\<^verbatim>\<open>ollama.chat\<close> followed by \<^verbatim>\<open>response['message']['content']\<close>; \<^term>\<open>Inl text\<close> is an
  exception raised inside the \<^verbatim>\<open>try\<close> block, \<^term>\<open>Inr content\<close> the generated text) and
  the clock that \<^verbatim>\<open>DEFAULT CURRENT_TIMESTAMP\<close> reads at each of the three inserts.
\<close>

record chat_env =
  ollama_chat :: "string option \<Rightarrow> string \<Rightarrow> string + string"
  now_conversation :: timestamp
  now_user_message :: timestamp
  now_assistant_message :: timestamp

text \<open>
  \<^verbatim>\<open>INSERT INTO conversations (user_id, model_name, domain, title)\<close>; the columns
  \<^verbatim>\<open>model_name\<close> and \<^verbatim>\<open>domain\<close> are \<^verbatim>\<open>NOT NULL\<close>. The result carries
  \<^verbatim>\<open>c.lastrowid\<close>.
\<close>

definition insert_conversation ::
  "connection \<Rightarrow> int \<Rightarrow> string option \<Rightarrow> string option \<Rightarrow> string \<Rightarrow> timestamp
     \<Rightarrow> py_error + (connection \<times> int)" where
  "insert_conversation conn user_id model_name domain title now =
     (case model_name of
        None \<Rightarrow> Inl IntegrityError
      | Some mn \<Rightarrow>
          (case domain of
             None \<Rightarrow> Inl IntegrityError
           | Some d \<Rightarrow>
               (let db = working conn;
                    lastrowid = next_rowid (map c_id (conversations db));
                    row = \<lparr>c_id = lastrowid, c_user_id = user_id, c_model_name = mn,
                           c_domain = d, c_title = title, c_created_at = now\<rparr>
                in Inr (conn\<lparr>working := db\<lparr>conversations := conversations db @ [row]\<rparr>\<rparr>,
                        lastrowid))))"

text \<open>
  \<^verbatim>\<open>INSERT INTO messages (conversation_id, user_id, role, content, input_type)\<close> with
  \<^verbatim>\<open>input_type = 'text'\<close>; \<^verbatim>\<open>file_path\<close> stays \<^verbatim>\<open>NULL\<close>. Foreign keys are declared
  but sqlite3 does not enforce them unless asked to, and the application never asks.
\<close>

definition insert_message ::
  "connection \<Rightarrow> int \<Rightarrow> int \<Rightarrow> string \<Rightarrow> string \<Rightarrow> timestamp \<Rightarrow> connection" where
  "insert_message conn conversation_id user_id role content now =
     (let db = working conn;
          row = \<lparr>m_id = next_rowid (map m_id (messages db)),
                 m_conversation_id = conversation_id, m_user_id = user_id, m_role = role,
                 m_content = content, m_input_type = ''text'', m_file_path = None,
                 m_created_at = now\<rparr>
      in conn\<lparr>working := db\<lparr>messages := messages db @ [row]\<rparr>\<rparr>)"

text \<open>
  Lines 265 to 269, the branch that creates the conversation. \<^verbatim>\<open>len(None)\<close> raises
  \<^verbatim>\<open>TypeError\<close> before anything is inserted.
\<close>

definition new_conversation ::
  "chat_env \<Rightarrow> int \<Rightarrow> chat_request \<Rightarrow> connection \<Rightarrow> py_error + (connection \<times> int)" where
  "new_conversation env uid rq conn =
     (case rq_message rq of
        None \<Rightarrow> Inl TypeError
      | Some user_message \<Rightarrow>
          insert_conversation conn uid (rq_model rq) (rq_domain rq)
            (make_title user_message) (now_conversation env))"

text \<open>
  An integer parameter of a statement must fit the signed 64-bit \<^verbatim>\<open>INTEGER\<close> of SQLite;
  the sqlite3 module raises \<^verbatim>\<open>OverflowError\<close> while it binds one that does not.
\<close>

definition sqlite_integer :: "int \<Rightarrow> bool" where
  "sqlite_integer i = (- 9223372036854775808 \<le> i \<and> i \<le> 9223372036854775807)"

text \<open>
  Lines 254 to 273, the part of the handler before the \<^verbatim>\<open>try\<close> block: an exception here
  leaves the handler. \<^verbatim>\<open>not conversation_id\<close> is true of \<^verbatim>\<open>None\<close> and of 0; any other id
  is used as it is, without reading the conversations table, and is bound as the first
  parameter of the insert of the user message. A \<^verbatim>\<open>None\<close> message violates
  \<^verbatim>\<open>content TEXT NOT NULL\<close>. The result is the connection, the active conversation id
  and the message text.
\<close>

definition api_chat_begin ::
  "chat_env \<Rightarrow> int \<Rightarrow> chat_request \<Rightarrow> connection \<Rightarrow> py_error + (connection \<times> int \<times> string)" where
  "api_chat_begin env uid rq conn =
     (case (case rq_conversation_id rq of
              None \<Rightarrow> new_conversation env uid rq conn
            | Some conversation_id \<Rightarrow>
                if conversation_id = 0 then new_conversation env uid rq conn
                else if sqlite_integer conversation_id then Inr (conn, conversation_id)
                else Inl OverflowError) of
        Inl e \<Rightarrow> Inl e
      | Inr (conn1, conversation_id) \<Rightarrow>
          (case rq_message rq of
             None \<Rightarrow> Inl IntegrityError
           | Some user_message \<Rightarrow>
               Inr (insert_message conn1 conversation_id uid ''user'' user_message
                      (now_user_message env),
                    conversation_id, user_message)))"

text \<open>
  The whole handler: the response and the database file it leaves. The only commit is the
  one after the assistant message; the \<^verbatim>\<open>except\<close> branch answers and the \<^verbatim>\<open>finally\<close>
  branch closes the connection.
\<close>

definition api_chat :: "chat_env \<Rightarrow> int option \<Rightarrow> database \<Rightarrow> chat_request \<Rightarrow> response \<times> database" where
  "api_chat env session db rq =
     (case session of
        None \<Rightarrow> (login_redirect, db)
      | Some uid \<Rightarrow>
          (case api_chat_begin env uid rq (connect db) of
             Inl e \<Rightarrow> (Unhandled e, db)
           | Inr (conn, conversation_id, user_message) \<Rightarrow>
               (case ollama_chat env (rq_model rq) user_message of
                  Inr ai_response \<Rightarrow>
                    (let conn' = commit (insert_message conn conversation_id uid ''assistant''
                                           ai_response (now_assistant_message env))
                     in (Json [(''success'', JBool True), (''response'', JStr ai_response),
                               (''conversation_id'', JInt conversation_id)] 200,
                         close conn'))
                | Inl err \<Rightarrow>
                    (Json [(''success'', JBool False), (''error'', JStr err)] 500,
                     close conn))))"

text \<open>The value of a key in a JSON response, if the response is one and has the key.\<close>

definition json_get :: "response \<Rightarrow> string \<Rightarrow> json option" where
  "json_get r key = (case r of Json body status \<Rightarrow> map_of body key | _ \<Rightarrow> None)"

subsection \<open>Uploads: allowed\_file and upload\_file\<close>

definition ALLOWED_EXTENSIONS :: "string set" where
  "ALLOWED_EXTENSIONS =
     {''txt'', ''pdf'', ''png'', ''jpg'', ''jpeg'', ''gif'', ''csv'', ''py'', ''js'', ''html'',
      ''css'', ''doc'', ''docx''}"

definition MAX_CONTENT_LENGTH :: nat where
  "MAX_CONTENT_LENGTH = 16 * 1024 * 1024"

text \<open>\<^verbatim>\<open>str.lower\<close> on the letters A to Z; every other character is kept.\<close>

definition lower_char :: "char \<Rightarrow> char" where
  "lower_char c =
     (case map_of (zip ''ABCDEFGHIJKLMNOPQRSTUVWXYZ'' ''abcdefghijklmnopqrstuvwxyz'') c of
        None \<Rightarrow> c
      | Some l \<Rightarrow> l)"

definition lower :: "string \<Rightarrow> string" where
  "lower s = map lower_char s"

text \<open>
  \<^verbatim>\<open>filename.rsplit('.', 1)[1]\<close>, for a filename that holds a dot: what follows the last
  dot.
\<close>

definition rsplit_dot_last :: "string \<Rightarrow> string" where
  "rsplit_dot_last filename = rev (takeWhile (\<lambda>c. c \<noteq> CHR ''.'') (rev filename))"

definition allowed_file :: "string \<Rightarrow> bool" where
  "allowed_file filename =
     (CHR ''.'' \<in> set filename \<and> lower (rsplit_dot_last filename) \<in> ALLOWED_EXTENSIONS)"

text \<open>\<^verbatim>\<open>str\<close> of an integer, as the f-string that builds the stored name formats the user id.\<close>

function str_nat :: "nat \<Rightarrow> string" where
  "str_nat n =
     (if n < 10 then [''0123456789'' ! n]
      else str_nat (n div 10) @ [''0123456789'' ! (n mod 10)])"
  by pat_completeness auto
termination
  by (relation "measure (\<lambda>n. n)") auto

definition str_int :: "int \<Rightarrow> string" where
  "str_int i = (if i < 0 then CHR ''-'' # str_nat (nat (- i)) else str_nat (nat i))"

text \<open>
  The multipart request: its length, the part named \<^verbatim>\<open>file\<close> if there is one, and the form
  field \<^verbatim>\<open>conversation_id\<close>.
\<close>

record file_storage =
  fs_filename :: string
  fs_content :: string

record upload_request =
  up_content_length :: nat
  up_file :: "file_storage option"
  up_conversation_id :: "string option"

text \<open>
  What the handler calls outside the repository: werkzeug's \<^verbatim>\<open>secure_filename\<close>, the
  wall clock formatted by \<^verbatim>\<open>strftime('%Y%m%d_%H%M%S')\<close>, and the clock of the insert.
\<close>

record upload_env =
  secure_filename :: "string \<Rightarrow> string"
  strftime_now :: string
  now_upload :: timestamp

type_synonym filesystem = "string \<rightharpoonup> string"

text \<open>
  \<^verbatim>\<open>INSERT INTO uploaded_files\<close>. The row records the parameters as the handler passes
  them; \<^verbatim>\<open>conversation_id\<close> is the text of the form field (SQLite stores a text that reads
  as a number in this \<^verbatim>\<open>INTEGER\<close> column as that number).
\<close>

definition insert_uploaded_file ::
  "connection \<Rightarrow> int \<Rightarrow> string option \<Rightarrow> string \<Rightarrow> string \<Rightarrow> string \<Rightarrow> timestamp \<Rightarrow> connection" where
  "insert_uploaded_file conn user_id conversation_id filename file_path file_type now =
     (let db = working conn;
          row = \<lparr>f_id = next_rowid (map f_id (uploaded_files db)), f_user_id = user_id,
                 f_conversation_id = conversation_id, f_filename = filename,
                 f_file_path = file_path, f_file_type = file_type, f_uploaded_at = now\<rparr>
      in conn\<lparr>working := db\<lparr>uploaded_files := uploaded_files db @ [row]\<rparr>\<rparr>)"

definition json_failure :: "string \<Rightarrow> nat \<Rightarrow> response" where
  "json_failure msg status = Json [(''success'', JBool False), (''error'', JStr msg)] status"

text \<open>
  The handler. Flask refuses a body longer than \<^verbatim>\<open>MAX_CONTENT_LENGTH\<close> with status 413
  when the handler first reads \<^verbatim>\<open>request.files\<close>. A file part is true in
  \<^verbatim>\<open>if file and ...\<close> exactly when its filename is not empty, which the test before it
  has settled. \<^verbatim>\<open>os.path.join\<close> puts a slash between the folder and the stored name, which
  starts with the user id.
\<close>

definition upload_file ::
  "upload_env \<Rightarrow> int option \<Rightarrow> database \<Rightarrow> filesystem \<Rightarrow> upload_request
     \<Rightarrow> response \<times> database \<times> filesystem" where
  "upload_file env session db fs rq =
     (case session of
        None \<Rightarrow> (login_redirect, db, fs)
      | Some uid \<Rightarrow>
          if up_content_length rq > MAX_CONTENT_LENGTH then (Abort 413, db, fs)
          else
            (case up_file rq of
               None \<Rightarrow> (json_failure ''No file provided'' 400, db, fs)
             | Some file \<Rightarrow>
                 if fs_filename file = [] then (json_failure ''No file selected'' 400, db, fs)
                 else if allowed_file (fs_filename file) then
                   (let filename = str_int uid @ ''_'' @ strftime_now env @ ''_''
                                     @ secure_filename env (fs_filename file);
                        filepath = ''uploads/'' @ filename;
                        fs' = fs(filepath \<mapsto> fs_content file);
                        conn = insert_uploaded_file (connect db) uid (up_conversation_id rq)
                                 (fs_filename file) filepath
                                 (lower (rsplit_dot_last (fs_filename file))) (now_upload env)
                    in (Json [(''success'', JBool True), (''filepath'', JStr filepath),
                              (''filename'', JStr filename)] 200,
                        close (commit conn), fs'))
                 else (json_failure ''Invalid file type'' 400, db, fs)))"

subsection \<open>Reading back: history and view\_conversation\<close>

text \<open>
  \<^verbatim>\<open>ORDER BY key ASC\<close> and \<^verbatim>\<open>ORDER BY key DESC\<close>. Neither query has an index on its key,
  so SQLite runs the rows of the scan through its sorter, which returns rows with equal
  keys in the order in which the scan produced them. The rows are given here in that
  order: for the transcript the order of the messages table, for the history the order of
  the conversations table.
\<close>

definition order_by_asc :: "('a \<Rightarrow> timestamp) \<Rightarrow> 'a list \<Rightarrow> 'a list" where
  "order_by_asc key rows = sort_key key rows"

definition order_by_desc :: "('a \<Rightarrow> timestamp) \<Rightarrow> 'a list \<Rightarrow> 'a list" where
  "order_by_desc key rows = rev (sort_key key (rev rows))"

text \<open>
  \<^verbatim>\<open>FROM conversations c LEFT JOIN messages m ON c.id = m.conversation_id\<close>: each
  conversation paired with each of its messages, or with \<^verbatim>\<open>NULL\<close> when it has none.
\<close>

definition left_join_rows ::
  "conversation_row \<Rightarrow> message_row list \<Rightarrow> (conversation_row \<times> message_row option) list" where
  "left_join_rows c ms =
     (case filter (\<lambda>m. c_id c = m_conversation_id m) ms of
        [] \<Rightarrow> [(c, None)]
      | m # ms' \<Rightarrow> map (\<lambda>m. (c, Some m)) (m # ms'))"

definition left_join ::
  "conversation_row list \<Rightarrow> message_row list \<Rightarrow> (conversation_row \<times> message_row option) list" where
  "left_join cs ms = concat (map (\<lambda>c. left_join_rows c ms) cs)"

text \<open>\<^verbatim>\<open>GROUP BY c.id\<close>: one group of joined rows for each id that occurs.\<close>

definition group_by_c_id ::
  "(conversation_row \<times> message_row option) list
     \<Rightarrow> (conversation_row \<times> message_row option) list list" where
  "group_by_c_id rows =
     map (\<lambda>k. filter (\<lambda>(c, m). c_id c = k) rows) (remdups (map (\<lambda>(c, m). c_id c) rows))"

text \<open>\<^verbatim>\<open>COUNT(m.id)\<close>: the rows of the group whose \<^verbatim>\<open>m.id\<close> is not \<^verbatim>\<open>NULL\<close>.\<close>

definition count_m_id :: "(conversation_row \<times> message_row option) list \<Rightarrow> nat" where
  "count_m_id grp = length (filter (\<lambda>(c, m). m \<noteq> None) grp)"

text \<open>
  The selected columns of a group; the columns of \<^verbatim>\<open>c\<close> are read from a row of the group
  (its first one here; the rows of a group have the same \<^verbatim>\<open>c.id\<close>).
\<close>

definition select_history_row :: "(conversation_row \<times> message_row option) list \<Rightarrow> history_row" where
  "select_history_row grp =
     (case grp of
        [] \<Rightarrow> (0, [], [], [], 0, 0)
      | (c, m) # rest \<Rightarrow>
          (c_id c, c_model_name c, c_domain c, c_title c, c_created_at c, count_m_id grp))"

definition history_created_at :: "history_row \<Rightarrow> timestamp" where
  "history_created_at r = (case r of (i, mn, d, t, created_at, n) \<Rightarrow> created_at)"

definition history :: "int option \<Rightarrow> database \<Rightarrow> response" where
  "history session db =
     (case session of
        None \<Rightarrow> login_redirect
      | Some uid \<Rightarrow>
          Render_history
            (order_by_desc history_created_at
               (map select_history_row
                  (group_by_c_id
                     (filter (\<lambda>(c, m). c_user_id c = uid)
                        (left_join (conversations db) (messages db)))))))"

text \<open>
  \<^verbatim>\<open>SELECT role, content, created_at FROM messages WHERE conversation_id = ?\<close>, before
  the \<^verbatim>\<open>ORDER BY\<close>: the rows in the order of the table, which is the order of insertion.
\<close>

definition select_transcript :: "database \<Rightarrow> int \<Rightarrow> transcript_row list" where
  "select_transcript db conversation_id =
     map (\<lambda>m. (m_role m, m_content m, m_created_at m))
       (filter (\<lambda>m. m_conversation_id m = conversation_id) (messages db))"

definition transcript_created_at :: "transcript_row \<Rightarrow> timestamp" where
  "transcript_created_at r = (case r of (role, content, created_at) \<Rightarrow> created_at)"

text \<open>
  \<^verbatim>\<open>SELECT * FROM conversations WHERE id = ? AND user_id = ?\<close> with \<^verbatim>\<open>fetchone\<close>, then the
  transcript.
\<close>

definition view_conversation :: "int option \<Rightarrow> database \<Rightarrow> int \<Rightarrow> response" where
  "view_conversation session db conversation_id =
     (case session of
        None \<Rightarrow> login_redirect
      | Some uid \<Rightarrow>
          (case find (\<lambda>c. c_id c = conversation_id \<and> c_user_id c = uid) (conversations db) of
             None \<Rightarrow> Redirect ''history'' ''Conversation not found.''
           | Some conversation \<Rightarrow>
               Render_view_conversation conversation
                 (order_by_asc transcript_created_at
                    (select_transcript db conversation_id))))"

subsection \<open>Example requests and databases\<close>

definition env_ok :: chat_env where
  "env_ok = \<lparr>ollama_chat = (\<lambda>model_name prompt. Inr ''Hello!''), now_conversation = 100,
              now_user_message = 100, now_assistant_message = 103\<rparr>"

definition env_down :: chat_env where
  "env_down = \<lparr>ollama_chat = (\<lambda>model_name prompt. Inl ''connection refused''),
                now_conversation = 100, now_user_message = 100, now_assistant_message = 103\<rparr>"

definition db_empty :: database where
  "db_empty = \<lparr>conversations = [], messages = [], uploaded_files = []\<rparr>"

definition rq_hello :: chat_request where
  "rq_hello = \<lparr>rq_model = Some ''Jayasimma/gennai'', rq_message = Some ''hello'',
                rq_conversation_id = None, rq_domain = Some ''agriculture''\<rparr>"

definition db_other :: database where
  "db_other = \<lparr>conversations =
                  [\<lparr>c_id = 7, c_user_id = 2, c_model_name = ''Jayasimma/gennai'',
                    c_domain = ''agriculture'', c_title = ''soil'', c_created_at = 50\<rparr>],
                messages =
                  [\<lparr>m_id = 1, m_conversation_id = 7, m_user_id = 2, m_role = ''user'',
                    m_content = ''soil'', m_input_type = ''text'', m_file_path = None,
                    m_created_at = 50\<rparr>],
                uploaded_files = []\<rparr>"

definition rq_foreign :: chat_request where
  "rq_foreign = \<lparr>rq_model = Some ''Jayasimma/gennai'', rq_message = Some ''injected'',
                  rq_conversation_id = Some 7, rq_domain = Some ''agriculture''\<rparr>"


definition rq_long :: chat_request where
  "rq_long = \<lparr>rq_model = Some ''Jayasimma/gennai'',
               rq_message = Some ''Explain crop rotation and its benefits for soil health in detail'',
               rq_conversation_id = None, rq_domain = Some ''agriculture''\<rparr>"

definition coding_info :: domain_info where
  "coding_info = \<lparr>d_name = ''Coding'', d_icon = [128187],
         d_models = [''Jayasimma/codemium_ai'', ''Jayasimma/creaton-ai''],
         d_description = ''Programming help, code review, and software development''\<rparr>"

definition db_ties :: database where
  "db_ties = \<lparr>conversations =
                 [\<lparr>c_id = 1, c_user_id = 1, c_model_name = ''Jayasimma/gennai'',
                   c_domain = ''agriculture'', c_title = ''first'', c_created_at = 100\<rparr>],
               messages =
                 [\<lparr>m_id = 1, m_conversation_id = 1, m_user_id = 1, m_role = ''user'',
                   m_content = ''first'', m_input_type = ''text'', m_file_path = None,
                   m_created_at = 100\<rparr>,
                  \<lparr>m_id = 2, m_conversation_id = 1, m_user_id = 1, m_role = ''assistant'',
                   m_content = ''second'', m_input_type = ''text'', m_file_path = None,
                   m_created_at = 100\<rparr>],
               uploaded_files = []\<rparr>"

definition env_step :: chat_env where
  "env_step = \<lparr>ollama_chat = (\<lambda>model_name prompt. Inr ''Hello!''), now_conversation = 200,
                now_user_message = 200, now_assistant_message = 100\<rparr>"

definition db_step :: database where
  "db_step = \<lparr>conversations =
                 [\<lparr>c_id = 1, c_user_id = 1, c_model_name = ''Jayasimma/gennai'',
                   c_domain = ''agriculture'', c_title = ''hello'', c_created_at = 200\<rparr>],
               messages =
                 [\<lparr>m_id = 1, m_conversation_id = 1, m_user_id = 1, m_role = ''user'',
                   m_content = ''hello'', m_input_type = ''text'', m_file_path = None,
                   m_created_at = 200\<rparr>,
                  \<lparr>m_id = 2, m_conversation_id = 1, m_user_id = 1, m_role = ''assistant'',
                   m_content = ''Hello!'', m_input_type = ''text'', m_file_path = None,
                   m_created_at = 100\<rparr>],
               uploaded_files = []\<rparr>"

definition db_history :: database where
  "db_history = \<lparr>conversations =
                 [\<lparr>c_id = 1, c_user_id = 1, c_model_name = ''Jayasimma/gennai'',
                   c_domain = ''agriculture'', c_title = ''first'', c_created_at = 100\<rparr>,
                  \<lparr>c_id = 2, c_user_id = 2, c_model_name = ''Jayasimma/Puzhavan'',
                   c_domain = ''healthcare'', c_title = ''other'', c_created_at = 150\<rparr>,
                  \<lparr>c_id = 3, c_user_id = 1, c_model_name = ''Jayasimma/creaton-ai'',
                   c_domain = ''coding'', c_title = ''empty'', c_created_at = 200\<rparr>],
               messages =
                 [\<lparr>m_id = 1, m_conversation_id = 1, m_user_id = 1, m_role = ''user'',
                   m_content = ''first'', m_input_type = ''text'', m_file_path = None,
                   m_created_at = 100\<rparr>,
                  \<lparr>m_id = 2, m_conversation_id = 1, m_user_id = 1, m_role = ''assistant'',
                   m_content = ''second'', m_input_type = ''text'', m_file_path = None,
                   m_created_at = 101\<rparr>,
                  \<lparr>m_id = 3, m_conversation_id = 2, m_user_id = 2, m_role = ''user'',
                   m_content = ''other'', m_input_type = ''text'', m_file_path = None,
                   m_created_at = 150\<rparr>],
               uploaded_files = []\<rparr>"

definition upload_env_example :: upload_env where
  "upload_env_example = \<lparr>secure_filename = (\<lambda>name. name), strftime_now = ''20240101_120000'',
                          now_upload = 500\<rparr>"

definition upload_exe :: upload_request where
  "upload_exe = \<lparr>up_content_length = 2048,
                  up_file = Some \<lparr>fs_filename = ''report.exe'', fs_content = ''MZ''\<rparr>,
                  up_conversation_id = None\<rparr>"

definition upload_pdf :: upload_request where
  "upload_pdf = \<lparr>up_content_length = 2048,
                  up_file = Some \<lparr>fs_filename = ''report.PDF'', fs_content = ''%PDF''\<rparr>,
                  up_conversation_id = Some ''7''\<rparr>"

section \<open>Properties\<close>

subsection \<open>Row ids and the steps of a chat turn\<close>

lemma next_rowid_fresh: "next_rowid ids \<notin> set ids"
proof (cases "ids = []")
  case True
  then show ?thesis by simp
next
  case False
  have "x \<le> Max (set ids)" if "x \<in> set ids" for x
    using that by simp
  then have "x < next_rowid ids" if "x \<in> set ids" for x
    using that False by (fastforce simp: next_rowid_def)
  then show ?thesis by blast
qed

lemma next_rowid_snoc: "next_rowid (ids @ [next_rowid ids]) = next_rowid ids + 1"
proof (cases "ids = []")
  case True
  then show ?thesis by (simp add: next_rowid_def)
next
  case False
  then have "Max (insert (Max (set ids) + 1) (set ids)) = Max (set ids) + 1"
    by (simp add: max_def)
  with False show ?thesis by (simp add: next_rowid_def)
qed

lemma api_chat_begin_new:
  assumes "rq_conversation_id rq = None \<or> rq_conversation_id rq = Some 0"
      and "rq_message rq = Some um"
      and "rq_model rq = Some mn"
      and "rq_domain rq = Some d"
  shows "api_chat_begin env uid rq (connect db) =
           Inr (\<lparr>committed = db,
                  working = db\<lparr>conversations := conversations db @
                      [\<lparr>c_id = next_rowid (map c_id (conversations db)), c_user_id = uid,
                        c_model_name = mn, c_domain = d, c_title = make_title um,
                        c_created_at = now_conversation env\<rparr>],
                    messages := messages db @
                      [\<lparr>m_id = next_rowid (map m_id (messages db)),
                        m_conversation_id = next_rowid (map c_id (conversations db)),
                        m_user_id = uid, m_role = ''user'', m_content = um,
                        m_input_type = ''text'', m_file_path = None,
                        m_created_at = now_user_message env\<rparr>]\<rparr>\<rparr>,
                next_rowid (map c_id (conversations db)), um)"
  using assms
  by (auto simp: api_chat_begin_def new_conversation_def insert_conversation_def
      insert_message_def connect_def Let_def)

lemma api_chat_begin_continue:
  assumes "rq_conversation_id rq = Some cid"
      and "cid \<noteq> 0"
      and "sqlite_integer cid"
      and "rq_message rq = Some um"
  shows "api_chat_begin env uid rq (connect db) =
           Inr (\<lparr>committed = db,
                  working = db\<lparr>messages := messages db @
                      [\<lparr>m_id = next_rowid (map m_id (messages db)),
                        m_conversation_id = cid,
                        m_user_id = uid, m_role = ''user'', m_content = um,
                        m_input_type = ''text'', m_file_path = None,
                        m_created_at = now_user_message env\<rparr>]\<rparr>\<rparr>,
                cid, um)"
  using assms
  by (auto simp: api_chat_begin_def insert_message_def connect_def Let_def)

lemma api_chat_begin_Inr:
  assumes "api_chat_begin env uid rq (connect db) = Inr (conn, cid, um)"
  shows "committed conn = db
       \<and> rq_message rq = Some um
       \<and> messages (working conn) = messages db @
            [\<lparr>m_id = next_rowid (map m_id (messages db)), m_conversation_id = cid,
              m_user_id = uid, m_role = ''user'', m_content = um,
              m_input_type = ''text'', m_file_path = None,
              m_created_at = now_user_message env\<rparr>]"
  using assms
  by (auto simp: api_chat_begin_def new_conversation_def insert_conversation_def
      insert_message_def connect_def Let_def
      split: option.splits if_splits sum.splits)

lemma api_chat_reached:
  assumes "api_chat_begin env uid rq (connect db) = Inr (conn, cid, um)"
  shows "api_chat env (Some uid) db rq =
          (case ollama_chat env (rq_model rq) um of
             Inr a \<Rightarrow>
               (Json [(''success'', JBool True), (''response'', JStr a),
                      (''conversation_id'', JInt cid)] 200,
                (working conn)\<lparr>messages := messages (working conn) @
                   [\<lparr>m_id = next_rowid (map m_id (messages (working conn))),
                     m_conversation_id = cid, m_user_id = uid, m_role = ''assistant'',
                     m_content = a, m_input_type = ''text'', m_file_path = None,
                     m_created_at = now_assistant_message env\<rparr>]\<rparr>)
           | Inl err \<Rightarrow> (Json [(''success'', JBool False), (''error'', JStr err)] 500, db))"
  using assms api_chat_begin_Inr [OF assms]
  by (simp add: api_chat_def insert_message_def commit_def close_def Let_def split: sum.splits)

subsection \<open>The chat turn\<close>

text \<open>
  Claim C1. The claim: when the request names a conversation, the handler loads it and
  checks that the caller owns it before it stores a message, and fails otherwise. The
  handler never reads the conversations table on that path. Here conversation 7 belongs
  to user 2, the lookup that \<^const>\<open>view_conversation\<close> would make for user 1 finds nothing,
  and yet the turn of user 1 succeeds and both of its messages are committed under
  conversation 7.
\<close>

theorem api_chat_foreign_conversation:
  "find (\<lambda>c. c_id c = 7 \<and> c_user_id c = 1) (conversations db_other) = None
   \<and> api_chat env_ok (Some 1) db_other rq_foreign =
      (Json [(''success'', JBool True), (''response'', JStr ''Hello!''),
             (''conversation_id'', JInt 7)] 200,
       db_other\<lparr>messages := messages db_other @
          [\<lparr>m_id = 2, m_conversation_id = 7, m_user_id = 1, m_role = ''user'',
            m_content = ''injected'', m_input_type = ''text'', m_file_path = None,
            m_created_at = 100\<rparr>,
           \<lparr>m_id = 3, m_conversation_id = 7, m_user_id = 1, m_role = ''assistant'',
            m_content = ''Hello!'', m_input_type = ''text'', m_file_path = None,
            m_created_at = 103\<rparr>]\<rparr>)"
  by (simp add: api_chat_def api_chat_begin_def sqlite_integer_def insert_message_def
      connect_def commit_def close_def next_rowid_def env_ok_def db_other_def rq_foreign_def
      Let_def)

text \<open>
  Claim C2. The claim: the user message is stored durably before inference is invoked and
  stays in the store when inference fails. The handler does insert the user message before
  the \<^verbatim>\<open>try\<close> block, but its only commit follows the insert of the assistant message; on
  the failure path the connection is closed without a commit. Here the backend refuses the
  connection, and the database file is left as it was, without the user message.
\<close>

theorem failed_inference_loses_user_message:
  "ollama_chat env_down (rq_model rq_hello) ''hello'' = Inl ''connection refused''
   \<and> snd (api_chat env_down (Some 1) db_empty rq_hello) = db_empty
   \<and> messages db_empty = []"
  by (simp add: api_chat_def api_chat_begin_def new_conversation_def insert_conversation_def
      insert_message_def connect_def commit_def
      close_def next_rowid_def env_down_def db_empty_def rq_hello_def Let_def)

text \<open>
  The same for every turn that reaches the inference call: the user message is the last row
  of the connection's working copy, nothing is committed yet, a failing inference leaves
  the database file unchanged, and a succeeding one commits both messages.
\<close>

lemma turn_commits_only_after_inference:
  assumes "api_chat_begin env uid rq (connect db) = Inr (conn, cid, um)"
  shows "committed conn = db
       \<and> messages (working conn) = messages db @
            [\<lparr>m_id = next_rowid (map m_id (messages db)), m_conversation_id = cid,
              m_user_id = uid, m_role = ''user'', m_content = um,
              m_input_type = ''text'', m_file_path = None,
              m_created_at = now_user_message env\<rparr>]
       \<and> (\<forall>err. ollama_chat env (rq_model rq) um = Inl err \<longrightarrow>
              snd (api_chat env (Some uid) db rq) = db)
       \<and> (\<forall>a. ollama_chat env (rq_model rq) um = Inr a \<longrightarrow>
              messages (snd (api_chat env (Some uid) db rq)) = messages db @
                [\<lparr>m_id = next_rowid (map m_id (messages db)), m_conversation_id = cid,
                  m_user_id = uid, m_role = ''user'', m_content = um,
                  m_input_type = ''text'', m_file_path = None,
                  m_created_at = now_user_message env\<rparr>,
                 \<lparr>m_id = next_rowid (map m_id (messages db)) + 1, m_conversation_id = cid,
                  m_user_id = uid, m_role = ''assistant'', m_content = a,
                  m_input_type = ''text'', m_file_path = None,
                  m_created_at = now_assistant_message env\<rparr>])"
  using api_chat_begin_Inr [OF assms] api_chat_reached [OF assms]
  by (simp add: next_rowid_snoc)

text \<open>
  Claim C3, as stated: the error response of a failed inference carries the active
  conversation id. It does not: the body has the keys \<^verbatim>\<open>success\<close> and \<^verbatim>\<open>error\<close> only.
\<close>

theorem failed_inference_response_has_no_conversation_id:
  "fst (api_chat env_down (Some 1) db_empty rq_hello) =
     Json [(''success'', JBool False), (''error'', JStr ''connection refused'')] 500
   \<and> json_get (fst (api_chat env_down (Some 1) db_empty rq_hello)) ''conversation_id'' = None"
  by (simp add: api_chat_def api_chat_begin_def new_conversation_def insert_conversation_def
      insert_message_def connect_def commit_def json_get_def
      close_def next_rowid_def env_down_def db_empty_def rq_hello_def Let_def)

text \<open>
  Claim C3, amended: whenever the inference call fails, the response is the JSON object
  with \<^verbatim>\<open>success\<close> false and \<^verbatim>\<open>error\<close> the text of the exception, with status 500; it
  has no key \<^verbatim>\<open>conversation_id\<close>.
\<close>

theorem inference_failure_response:
  assumes "api_chat_begin env uid rq (connect db) = Inr (conn, cid, um)"
      and "ollama_chat env (rq_model rq) um = Inl err"
  shows "fst (api_chat env (Some uid) db rq) =
           Json [(''success'', JBool False), (''error'', JStr err)] 500
       \<and> json_get (fst (api_chat env (Some uid) db rq)) ''conversation_id'' = None"
  using api_chat_reached [OF assms(1)] assms(2)
  by (simp add: json_get_def)

theorem inference_failure_response_witness:
  "api_chat_begin env_down 1 rq_hello (connect db_empty) =
     Inr (\<lparr>committed = db_empty,
            working = \<lparr>conversations =
                [\<lparr>c_id = 1, c_user_id = 1, c_model_name = ''Jayasimma/gennai'',
                  c_domain = ''agriculture'', c_title = ''hello'', c_created_at = 100\<rparr>],
              messages =
                [\<lparr>m_id = 1, m_conversation_id = 1, m_user_id = 1, m_role = ''user'',
                  m_content = ''hello'', m_input_type = ''text'', m_file_path = None,
                  m_created_at = 100\<rparr>],
              uploaded_files = []\<rparr>\<rparr>, 1, ''hello'')
   \<and> ollama_chat env_down (rq_model rq_hello) ''hello'' = Inl ''connection refused''
   \<and> fst (api_chat env_down (Some 1) db_empty rq_hello) =
       Json [(''success'', JBool False), (''error'', JStr ''connection refused'')] 500
   \<and> json_get (fst (api_chat env_down (Some 1) db_empty rq_hello)) ''conversation_id'' = None"
proof -
  have b: "api_chat_begin env_down 1 rq_hello (connect db_empty) =
     Inr (\<lparr>committed = db_empty,
            working = \<lparr>conversations =
                [\<lparr>c_id = 1, c_user_id = 1, c_model_name = ''Jayasimma/gennai'',
                  c_domain = ''agriculture'', c_title = ''hello'', c_created_at = 100\<rparr>],
              messages =
                [\<lparr>m_id = 1, m_conversation_id = 1, m_user_id = 1, m_role = ''user'',
                  m_content = ''hello'', m_input_type = ''text'', m_file_path = None,
                  m_created_at = 100\<rparr>],
              uploaded_files = []\<rparr>\<rparr>, 1, ''hello'')"
    by (simp add: api_chat_begin_def new_conversation_def insert_conversation_def
        insert_message_def connect_def make_title_def next_rowid_def env_down_def
        db_empty_def rq_hello_def Let_def)
  have f: "ollama_chat env_down (rq_model rq_hello) ''hello'' = Inl ''connection refused''"
    by (simp add: env_down_def)
  from inference_failure_response [OF b f] b f show ?thesis by blast
qed




text \<open>
  Claim C6. The claim: a turn without a conversation id derives the title from the
  utterance and creates the conversation, owned by the calling user. The title rule holds
  and the handler inserts the row, but the row is committed only by the commit that follows
  a successful inference. Here the utterance is \<^verbatim>\<open>hello\<close> and the backend refuses the
  connection: the row with the title \<^verbatim>\<open>hello\<close> is on the connection when inference is
  invoked, and no conversation is in the database file afterwards.
\<close>

theorem new_conversation_lost_when_inference_fails:
  "rq_conversation_id rq_hello = None
   \<and> make_title ''hello'' = ''hello''
   \<and> api_chat_begin env_down 1 rq_hello (connect db_empty) =
     Inr (\<lparr>committed = db_empty,
            working = \<lparr>conversations =
                [\<lparr>c_id = 1, c_user_id = 1, c_model_name = ''Jayasimma/gennai'',
                  c_domain = ''agriculture'', c_title = ''hello'', c_created_at = 100\<rparr>],
              messages =
                [\<lparr>m_id = 1, m_conversation_id = 1, m_user_id = 1, m_role = ''user'',
                  m_content = ''hello'', m_input_type = ''text'', m_file_path = None,
                  m_created_at = 100\<rparr>],
              uploaded_files = []\<rparr>\<rparr>, 1, ''hello'')
   \<and> conversations (snd (api_chat env_down (Some 1) db_empty rq_hello)) = []"
  by (simp add: api_chat_def api_chat_begin_def new_conversation_def insert_conversation_def
      insert_message_def connect_def close_def make_title_def next_rowid_def env_down_def
      db_empty_def rq_hello_def Let_def)

text \<open>
  The title rule and the inserted row, for every such turn: the title is the utterance
  itself when it has at most 50 characters and its first 50 characters followed by three
  dots otherwise; the row has a fresh id, the calling user as owner, the model, the domain
  and that title; when inference succeeds the row is committed and the response carries its
  id.
\<close>

lemma new_conversation_title_and_owner:
  assumes "rq_conversation_id rq = None"
      and "rq_message rq = Some um"
      and "rq_model rq = Some mn"
      and "rq_domain rq = Some d"
  shows "(length um \<le> 50 \<longrightarrow> make_title um = um)
       \<and> (50 < length um \<longrightarrow> make_title um = take 50 um @ ''...'')
       \<and> (\<exists>conn. api_chat_begin env uid rq (connect db) =
                    Inr (conn, next_rowid (map c_id (conversations db)), um)
                \<and> conversations (working conn) = conversations db @
                    [\<lparr>c_id = next_rowid (map c_id (conversations db)), c_user_id = uid,
                      c_model_name = mn, c_domain = d, c_title = make_title um,
                      c_created_at = now_conversation env\<rparr>])
       \<and> (\<forall>a. ollama_chat env (Some mn) um = Inr a \<longrightarrow>
             conversations (snd (api_chat env (Some uid) db rq)) = conversations db @
                    [\<lparr>c_id = next_rowid (map c_id (conversations db)), c_user_id = uid,
                      c_model_name = mn, c_domain = d, c_title = make_title um,
                      c_created_at = now_conversation env\<rparr>]
           \<and> json_get (fst (api_chat env (Some uid) db rq)) ''conversation_id'' =
               Some (JInt (next_rowid (map c_id (conversations db)))))
       \<and> next_rowid (map c_id (conversations db)) \<notin> set (map c_id (conversations db))"
proof -
  note b = api_chat_begin_new [OF disjI1 [OF assms(1)] assms(2) assms(3) assms(4), of env uid db]
  have 1: "(length um \<le> 50 \<longrightarrow> make_title um = um)
       \<and> (50 < length um \<longrightarrow> make_title um = take 50 um @ ''...'')"
    by (simp add: make_title_def)
  have 2: "\<exists>conn. api_chat_begin env uid rq (connect db) =
                    Inr (conn, next_rowid (map c_id (conversations db)), um)
                \<and> conversations (working conn) = conversations db @
                    [\<lparr>c_id = next_rowid (map c_id (conversations db)), c_user_id = uid,
                      c_model_name = mn, c_domain = d, c_title = make_title um,
                      c_created_at = now_conversation env\<rparr>]"
    by (simp add: b)
  have 3: "\<forall>a. ollama_chat env (Some mn) um = Inr a \<longrightarrow>
             conversations (snd (api_chat env (Some uid) db rq)) = conversations db @
                    [\<lparr>c_id = next_rowid (map c_id (conversations db)), c_user_id = uid,
                      c_model_name = mn, c_domain = d, c_title = make_title um,
                      c_created_at = now_conversation env\<rparr>]
           \<and> json_get (fst (api_chat env (Some uid) db rq)) ''conversation_id'' =
               Some (JInt (next_rowid (map c_id (conversations db))))"
    using api_chat_reached [OF b] assms(3) by (simp add: json_get_def)
  from 1 2 3 next_rowid_fresh show ?thesis by blast
qed

lemma new_conversation_title_and_owner_example:
  "rq_conversation_id rq_long = None
   \<and> length ''Explain crop rotation and its benefits for soil health in detail'' = 64
   \<and> make_title ''Explain crop rotation and its benefits for soil health in detail''
       = ''Explain crop rotation and its benefits for soil he...''
   \<and> make_title ''hello'' = ''hello''
   \<and> ollama_chat env_ok (Some ''Jayasimma/gennai'')
         ''Explain crop rotation and its benefits for soil health in detail'' = Inr ''Hello!''
   \<and> conversations (snd (api_chat env_ok (Some 1) db_other rq_long)) =
       conversations db_other @
         [\<lparr>c_id = 8, c_user_id = 1, c_model_name = ''Jayasimma/gennai'',
           c_domain = ''agriculture'',
           c_title = ''Explain crop rotation and its benefits for soil he...'',
           c_created_at = 100\<rparr>]
   \<and> json_get (fst (api_chat env_ok (Some 1) db_other rq_long)) ''conversation_id''
       = Some (JInt 8)"
proof -
  have c: "rq_conversation_id rq_long = None"
    and m: "rq_message rq_long =
              Some ''Explain crop rotation and its benefits for soil health in detail''"
    and n: "rq_model rq_long = Some ''Jayasimma/gennai''"
    and d: "rq_domain rq_long = Some ''agriculture''"
    by (simp_all add: rq_long_def)
  have c': "rq_conversation_id rq_hello = None"
    and m': "rq_message rq_hello = Some ''hello''"
    and n': "rq_model rq_hello = Some ''Jayasimma/gennai''"
    and d': "rq_domain rq_hello = Some ''agriculture''"
    by (simp_all add: rq_hello_def)
  have f: "ollama_chat env_ok (Some ''Jayasimma/gennai'')
         ''Explain crop rotation and its benefits for soil health in detail'' = Inr ''Hello!''"
    by (simp add: env_ok_def)
  have i: "next_rowid (map c_id (conversations db_other)) = 8"
    by (simp add: next_rowid_def db_other_def)
  have t: "now_conversation env_ok = 100"
    by (simp add: env_ok_def)
  from new_conversation_title_and_owner [OF c m n d, of env_ok 1 db_other]
    new_conversation_title_and_owner [OF c' m' n' d', of env_ok 1 db_other] f c
  show ?thesis
    by (simp add: i t)
qed

text \<open>
  Claim C7. In every chat turn an assistant message is stored exactly when the inference
  call of that turn succeeded: a turn that reaches the inference call and gets a text
  appends the user message and, right after it, one assistant message with that text; a
  turn whose inference call fails appends nothing; the messages already stored are kept;
  and among the rows a turn appends there is an assistant row if and only if the turn
  reached the inference call and the call returned a text.
\<close>

theorem assistant_message_iff_inference_succeeded:
  "(\<forall>uid conn cid um.
      session = Some uid \<and> api_chat_begin env uid rq (connect db) = Inr (conn, cid, um) \<longrightarrow>
        (case ollama_chat env (rq_model rq) um of
           Inr a \<Rightarrow>
             messages (snd (api_chat env session db rq)) = messages db @
                [\<lparr>m_id = next_rowid (map m_id (messages db)), m_conversation_id = cid,
                  m_user_id = uid, m_role = ''user'', m_content = um,
                  m_input_type = ''text'', m_file_path = None,
                  m_created_at = now_user_message env\<rparr>,
                 \<lparr>m_id = next_rowid (map m_id (messages db)) + 1, m_conversation_id = cid,
                  m_user_id = uid, m_role = ''assistant'', m_content = a,
                  m_input_type = ''text'', m_file_path = None,
                  m_created_at = now_assistant_message env\<rparr>]
         | Inl err \<Rightarrow> messages (snd (api_chat env session db rq)) = messages db))
   \<and> take (length (messages db)) (messages (snd (api_chat env session db rq))) = messages db
   \<and> ((\<exists>m \<in> set (drop (length (messages db)) (messages (snd (api_chat env session db rq)))).
          m_role m = ''assistant'')
        \<longleftrightarrow> (\<exists>uid conn cid um a. session = Some uid
               \<and> api_chat_begin env uid rq (connect db) = Inr (conn, cid, um)
               \<and> ollama_chat env (rq_model rq) um = Inr a))"
proof (cases session)
  case None
  then show ?thesis by (simp add: api_chat_def)
next
  case (Some uid)
  show ?thesis
  proof (cases "api_chat_begin env uid rq (connect db)")
    case (Inl e)
    with Some show ?thesis by (simp add: api_chat_def)
  next
    case (Inr t)
    then obtain conn cid um where b: "api_chat_begin env uid rq (connect db) = Inr (conn, cid, um)"
      by (cases t) auto
    show ?thesis
      using Some b api_chat_begin_Inr [OF b] api_chat_reached [OF b]
      by (cases "ollama_chat env (rq_model rq) um") (simp_all add: next_rowid_snoc)
  qed
qed

theorem assistant_message_iff_inference_succeeded_witness:
  "ollama_chat env_ok (rq_model rq_foreign) ''injected'' = Inr ''Hello!''
   \<and> messages (snd (api_chat env_ok (Some 1) db_other rq_foreign)) =
       messages db_other @
         [\<lparr>m_id = 2, m_conversation_id = 7, m_user_id = 1, m_role = ''user'',
           m_content = ''injected'', m_input_type = ''text'', m_file_path = None,
           m_created_at = 100\<rparr>,
          \<lparr>m_id = 3, m_conversation_id = 7, m_user_id = 1, m_role = ''assistant'',
           m_content = ''Hello!'', m_input_type = ''text'', m_file_path = None,
           m_created_at = 103\<rparr>]
   \<and> ollama_chat env_down (rq_model rq_foreign) ''injected'' = Inl ''connection refused''
   \<and> messages (snd (api_chat env_down (Some 1) db_other rq_foreign)) = messages db_other"
proof -
  have c: "rq_conversation_id rq_foreign = Some 7" and m: "rq_message rq_foreign = Some ''injected''"
    by (simp_all add: rq_foreign_def)
  have z: "(7::int) \<noteq> 0" by simp
  have r: "sqlite_integer 7" by (simp add: sqlite_integer_def)
  note b1 = api_chat_begin_continue [OF c z r m, of env_ok 1 db_other]
  note b2 = api_chat_begin_continue [OF c z r m, of env_down 1 db_other]
  have f1: "ollama_chat env_ok (rq_model rq_foreign) ''injected'' = Inr ''Hello!''"
    by (simp add: env_ok_def)
  have f2: "ollama_chat env_down (rq_model rq_foreign) ''injected'' = Inl ''connection refused''"
    by (simp add: env_down_def)
  have i: "next_rowid (map m_id (messages db_other)) = 1 + 1"
    by (simp add: next_rowid_def db_other_def)
  have t: "now_user_message env_ok = 100" "now_assistant_message env_ok = 103"
    by (simp_all add: env_ok_def)
  from assistant_message_iff_inference_succeeded
         [where session = "Some 1" and env = env_ok and rq = rq_foreign and db = db_other]
       b1 f1
  have 1: "messages (snd (api_chat env_ok (Some 1) db_other rq_foreign)) =
       messages db_other @
         [\<lparr>m_id = 2, m_conversation_id = 7, m_user_id = 1, m_role = ''user'',
           m_content = ''injected'', m_input_type = ''text'', m_file_path = None,
           m_created_at = 100\<rparr>,
          \<lparr>m_id = 3, m_conversation_id = 7, m_user_id = 1, m_role = ''assistant'',
           m_content = ''Hello!'', m_input_type = ''text'', m_file_path = None,
           m_created_at = 103\<rparr>]"
    by (simp add: i t)
  from assistant_message_iff_inference_succeeded
         [where session = "Some 1" and env = env_down and rq = rq_foreign and db = db_other]
       b2 f2
  have 2: "messages (snd (api_chat env_down (Some 1) db_other rq_foreign)) = messages db_other"
    by simp
  from 1 2 f1 f2 show ?thesis by simp
qed

subsection \<open>The chat page route\<close>

lemma replace_char_removes: "old \<noteq> new \<Longrightarrow> old \<notin> set (replace_char old new s)"
  by (auto simp: replace_char_def)

lemma map_of_coding: "map_of MODELS ''coding'' = Some coding_info"
  by (simp add: MODELS_def coding_info_def)

text \<open>
  Claim C10. The chat page route decodes the model identifier of its URL segment by
  replacing every underscore with a slash. So for a model identifier that a domain lists
  and that holds an underscore, decoding the encoded identifier (every slash replaced by an
  underscore) does not give the identifier back: the page is rendered for another name.
\<close>

theorem chat_decode_not_left_inverse:
  assumes "map_of MODELS domain = Some info"
      and "m \<in> set (d_models info)"
      and "CHR ''_'' \<in> set m"
  shows "chat (Some uid) domain (encode_model_name m) =
           Render_chat domain (replace_char CHR ''_'' CHR ''/'' (encode_model_name m)) info
         \<and> replace_char CHR ''_'' CHR ''/'' (encode_model_name m) \<noteq> m"
proof -
  have "CHR ''_'' \<notin> set (replace_char CHR ''_'' CHR ''/'' (encode_model_name m))"
    by (rule replace_char_removes) simp
  with assms(3) have "replace_char CHR ''_'' CHR ''/'' (encode_model_name m) \<noteq> m"
    by auto
  with assms(1) show ?thesis
    by (simp add: chat_def)
qed

theorem chat_decode_not_left_inverse_witness:
  "map_of MODELS ''coding'' = Some coding_info
   \<and> ''Jayasimma/codemium_ai'' \<in> set (d_models coding_info)
   \<and> ''Jayasimma/codemium_ai'' \<in> set registered_models
   \<and> CHR ''_'' \<in> set ''Jayasimma/codemium_ai''
   \<and> encode_model_name ''Jayasimma/codemium_ai'' = ''Jayasimma_codemium_ai''
   \<and> chat (Some 1) ''coding'' ''Jayasimma_codemium_ai''
        = Render_chat ''coding'' ''Jayasimma/codemium/ai'' coding_info
   \<and> ''Jayasimma/codemium/ai'' \<noteq> ''Jayasimma/codemium_ai''"
proof -
  have a: "''Jayasimma/codemium_ai'' \<in> set (d_models coding_info)"
    by (simp add: coding_info_def)
  have b: "CHR ''_'' \<in> set ''Jayasimma/codemium_ai''" by simp
  have e: "encode_model_name ''Jayasimma/codemium_ai'' = ''Jayasimma_codemium_ai''"
    by (simp add: encode_model_name_def replace_char_def)
  have r: "''Jayasimma/codemium_ai'' \<in> set registered_models"
    by (simp add: registered_models_def MODELS_def)
  have d: "replace_char CHR ''_'' CHR ''/'' ''Jayasimma_codemium_ai'' = ''Jayasimma/codemium/ai''"
    by (simp add: replace_char_def)
  from chat_decode_not_left_inverse [OF map_of_coding a b, of 1] e d map_of_coding a b r
  show ?thesis by simp
qed

subsection \<open>Uploads\<close>

text \<open>
  Claim C8. An upload that carries a file with a name is validated by the name alone.
  When the name has no dot, or the lower-cased text after its last dot is not in the
  allow-list, the answer is the 400 error \<^verbatim>\<open>Invalid file type\<close>, which differs from both
  answers given when no file was provided, nothing is written to the upload folder and no
  row is inserted. Otherwise the upload succeeds: the content is written under the
  generated name, one row is committed, and the answer carries the stored path and name.
  A request longer than the configured maximum never reaches this code.
\<close>

theorem upload_file_validates_type:
  assumes "up_content_length rq \<le> MAX_CONTENT_LENGTH"
      and "up_file rq = Some file"
      and "fs_filename file \<noteq> []"
  shows "(CHR ''.'' \<notin> set (fs_filename file)
            \<or> lower (rsplit_dot_last (fs_filename file)) \<notin> ALLOWED_EXTENSIONS \<longrightarrow>
          upload_file env (Some uid) db fs rq = (json_failure ''Invalid file type'' 400, db, fs))
       \<and> json_failure ''Invalid file type'' 400 \<noteq> json_failure ''No file provided'' 400
       \<and> json_failure ''Invalid file type'' 400 \<noteq> json_failure ''No file selected'' 400
       \<and> (CHR ''.'' \<in> set (fs_filename file)
            \<and> lower (rsplit_dot_last (fs_filename file)) \<in> ALLOWED_EXTENSIONS \<longrightarrow>
          upload_file env (Some uid) db fs rq =
            (Json [(''success'', JBool True),
                   (''filepath'', JStr (''uploads/'' @ str_int uid @ ''_'' @ strftime_now env
                        @ ''_'' @ secure_filename env (fs_filename file))),
                   (''filename'', JStr (str_int uid @ ''_'' @ strftime_now env
                        @ ''_'' @ secure_filename env (fs_filename file)))] 200,
             db\<lparr>uploaded_files := uploaded_files db @
                  [\<lparr>f_id = next_rowid (map f_id (uploaded_files db)), f_user_id = uid,
                    f_conversation_id = up_conversation_id rq,
                    f_filename = fs_filename file,
                    f_file_path = ''uploads/'' @ str_int uid @ ''_'' @ strftime_now env
                        @ ''_'' @ secure_filename env (fs_filename file),
                    f_file_type = lower (rsplit_dot_last (fs_filename file)),
                    f_uploaded_at = now_upload env\<rparr>]\<rparr>,
             fs(''uploads/'' @ str_int uid @ ''_'' @ strftime_now env
                        @ ''_'' @ secure_filename env (fs_filename file)
                  \<mapsto> fs_content file)))"
  using assms
  by (simp add: upload_file_def allowed_file_def json_failure_def insert_uploaded_file_def
      connect_def commit_def close_def Let_def)

theorem upload_file_validates_type_witness:
  "up_content_length upload_exe \<le> MAX_CONTENT_LENGTH
   \<and> lower (rsplit_dot_last ''report.exe'') = ''exe''
   \<and> ''exe'' \<notin> ALLOWED_EXTENSIONS
   \<and> upload_file upload_env_example (Some 1) db_empty Map.empty upload_exe =
       (json_failure ''Invalid file type'' 400, db_empty, Map.empty)
   \<and> lower (rsplit_dot_last ''report.PDF'') = ''pdf''
   \<and> ''pdf'' \<in> ALLOWED_EXTENSIONS
   \<and> upload_file upload_env_example (Some 1) db_empty Map.empty upload_pdf =
       (Json [(''success'', JBool True),
              (''filepath'', JStr ''uploads/1_20240101_120000_report.PDF''),
              (''filename'', JStr ''1_20240101_120000_report.PDF'')] 200,
        db_empty\<lparr>uploaded_files :=
          [\<lparr>f_id = 1, f_user_id = 1, f_conversation_id = Some ''7'',
            f_filename = ''report.PDF'',
            f_file_path = ''uploads/1_20240101_120000_report.PDF'',
            f_file_type = ''pdf'', f_uploaded_at = 500\<rparr>]\<rparr>,
        [''uploads/1_20240101_120000_report.PDF'' \<mapsto> ''%PDF''])"
proof -
  have l1: "up_content_length upload_exe \<le> MAX_CONTENT_LENGTH"
    and l2: "up_content_length upload_pdf \<le> MAX_CONTENT_LENGTH"
    by (simp_all add: upload_exe_def upload_pdf_def MAX_CONTENT_LENGTH_def)
  have f1: "up_file upload_exe = Some \<lparr>fs_filename = ''report.exe'', fs_content = ''MZ''\<rparr>"
    and f2: "up_file upload_pdf = Some \<lparr>fs_filename = ''report.PDF'', fs_content = ''%PDF''\<rparr>"
    by (simp_all add: upload_exe_def upload_pdf_def)
  have n1: "fs_filename \<lparr>fs_filename = ''report.exe'', fs_content = ''MZ''\<rparr> \<noteq> []"
    and n2: "fs_filename \<lparr>fs_filename = ''report.PDF'', fs_content = ''%PDF''\<rparr> \<noteq> []"
    by simp_all
  have e1: "lower (rsplit_dot_last ''report.exe'') = ''exe''"
    and e2: "lower (rsplit_dot_last ''report.PDF'') = ''pdf''"
    by (simp_all add: lower_def lower_char_def rsplit_dot_last_def)
  have a1: "''exe'' \<notin> ALLOWED_EXTENSIONS" and a2: "''pdf'' \<in> ALLOWED_EXTENSIONS"
    by (simp_all add: ALLOWED_EXTENSIONS_def)
  have s: "str_int 1 = ''1''"
    by (simp add: str_int_def)
  have v: "secure_filename upload_env_example ''report.PDF'' = ''report.PDF''"
    "strftime_now upload_env_example = ''20240101_120000''"
    "now_upload upload_env_example = 500"
    "up_conversation_id upload_pdf = Some ''7''"
    "next_rowid (map f_id (uploaded_files db_empty)) = 1"
    by (simp_all add: upload_env_example_def upload_pdf_def db_empty_def next_rowid_def)
  from upload_file_validates_type [OF l1 f1 n1, of upload_env_example 1 db_empty Map.empty]
    e1 a1
  have r1: "upload_file upload_env_example (Some 1) db_empty Map.empty upload_exe =
       (json_failure ''Invalid file type'' 400, db_empty, Map.empty)"
    by simp
  from upload_file_validates_type [OF l2 f2 n2, of upload_env_example 1 db_empty Map.empty]
    e2 a2
  have r2: "upload_file upload_env_example (Some 1) db_empty Map.empty upload_pdf =
       (Json [(''success'', JBool True),
              (''filepath'', JStr ''uploads/1_20240101_120000_report.PDF''),
              (''filename'', JStr ''1_20240101_120000_report.PDF'')] 200,
        db_empty\<lparr>uploaded_files :=
          [\<lparr>f_id = 1, f_user_id = 1, f_conversation_id = Some ''7'',
            f_filename = ''report.PDF'',
            f_file_path = ''uploads/1_20240101_120000_report.PDF'',
            f_file_type = ''pdf'', f_uploaded_at = 500\<rparr>]\<rparr>,
        [''uploads/1_20240101_120000_report.PDF'' \<mapsto> ''%PDF''])"
    by (simp add: s v db_empty_def next_rowid_def)
  from l1 e1 a1 r1 e2 a2 r2 show ?thesis by blast
qed

subsection \<open>History\<close>

lemma left_join_rows_eq:
  "left_join_rows c ms =
     (if filter (\<lambda>m. c_id c = m_conversation_id m) ms = [] then [(c, None)]
      else map (\<lambda>m. (c, Some m)) (filter (\<lambda>m. c_id c = m_conversation_id m) ms))"
  by (simp add: left_join_rows_def split: list.splits)

lemma left_join_rows_nonempty: "left_join_rows c ms \<noteq> []"
  by (simp add: left_join_rows_eq)

lemma left_join_rows_fst: "r \<in> set (left_join_rows c ms) \<Longrightarrow> fst r = c"
  by (auto simp: left_join_rows_eq split: if_splits)

lemma filter_left_join_rows:
  "(\<And>r. fst r = c \<Longrightarrow> P r = Q) \<Longrightarrow>
   filter P (left_join_rows c ms) = (if Q then left_join_rows c ms else [])"
  by (auto simp: filter_empty_conv filter_id_conv dest: left_join_rows_fst)

lemma filter_key_left_join:
  "filter (\<lambda>(c, m). c_id c = k) (left_join cs ms)
     = concat (map (\<lambda>c. left_join_rows c ms) (filter (\<lambda>c. c_id c = k) cs))"
proof (induction cs)
  case Nil
  then show ?case by (simp add: left_join_def)
next
  case (Cons x xs)
  have "filter (\<lambda>(c, m). c_id c = k) (left_join_rows x ms)
          = (if c_id x = k then left_join_rows x ms else [])"
    by (rule filter_left_join_rows) (auto simp: case_prod_unfold)
  with Cons show ?case by (simp add: left_join_def)
qed

lemma filter_owner_left_join:
  "filter (\<lambda>(c, m). c_user_id c = uid) (left_join cs ms)
     = left_join (filter (\<lambda>c. c_user_id c = uid) cs) ms"
proof (induction cs)
  case Nil
  then show ?case by (simp add: left_join_def)
next
  case (Cons x xs)
  have "filter (\<lambda>(c, m). c_user_id c = uid) (left_join_rows x ms)
          = (if c_user_id x = uid then left_join_rows x ms else [])"
    by (rule filter_left_join_rows) (auto simp: case_prod_unfold)
  with Cons show ?case by (simp add: left_join_def)
qed

lemma keys_left_join:
  "(\<lambda>(c, m). c_id c) ` set (left_join cs ms) = c_id ` set cs"
proof (induction cs)
  case Nil
  then show ?case by (simp add: left_join_def)
next
  case (Cons x xs)
  obtain r rest where r: "left_join_rows x ms = r # rest"
    using left_join_rows_nonempty [of x ms] by (auto simp: neq_Nil_conv)
  have f: "(case q of (c, m) \<Rightarrow> c_id c) = c_id x" if "q \<in> set (left_join_rows x ms)" for q
    using left_join_rows_fst [OF that] by (simp add: case_prod_unfold)
  have "(\<lambda>(c, m). c_id c) ` set (left_join_rows x ms) = {c_id x}"
  proof
    show "(\<lambda>(c, m). c_id c) ` set (left_join_rows x ms) \<subseteq> {c_id x}"
      using f by auto
    have "r \<in> set (left_join_rows x ms)" by (simp add: r)
    then show "{c_id x} \<subseteq> (\<lambda>(c, m). c_id c) ` set (left_join_rows x ms)"
      using f [of r] by (auto simp: image_iff intro!: bexI [of _ r])
  qed
  with Cons show ?case by (simp add: left_join_def image_Un)
qed

lemma filter_id_distinct:
  "distinct (map c_id cs) \<Longrightarrow> c \<in> set cs \<Longrightarrow> filter (\<lambda>x. c_id x = c_id c) cs = [c]"
proof (induction cs)
  case Nil
  then show ?case by simp
next
  case (Cons x xs)
  then show ?case
    by (auto simp: filter_empty_conv image_iff)
qed

lemma count_left_join_rows:
  "count_m_id (left_join_rows c ms) = length (filter (\<lambda>m. m_conversation_id m = c_id c) ms)"
proof -
  have e: "(\<lambda>m. c_id c = m_conversation_id m) = (\<lambda>m. m_conversation_id m = c_id c)"
    by auto
  show ?thesis
    by (simp add: left_join_rows_eq count_m_id_def e o_def)
qed

lemma select_left_join_rows:
  "select_history_row (left_join_rows c ms) =
     (c_id c, c_model_name c, c_domain c, c_title c, c_created_at c,
      length (filter (\<lambda>m. m_conversation_id m = c_id c) ms))"
proof -
  obtain r rest where r: "left_join_rows c ms = r # rest"
    using left_join_rows_nonempty [of c ms] by (auto simp: neq_Nil_conv)
  then have "fst r = c" using left_join_rows_fst [of r c ms] by simp
  then obtain m where "r = (c, m)" by (cases r) auto
  with r have "select_history_row (left_join_rows c ms) =
     (c_id c, c_model_name c, c_domain c, c_title c, c_created_at c,
      count_m_id (left_join_rows c ms))"
    by (simp add: select_history_row_def)
  then show ?thesis by (simp add: count_left_join_rows)
qed

lemma history_groups:
  assumes "distinct (map c_id cs)"
  shows "mset (map select_history_row
            (group_by_c_id (filter (\<lambda>(c, m). c_user_id c = uid) (left_join cs ms))))
       = mset (map (\<lambda>c. (c_id c, c_model_name c, c_domain c, c_title c, c_created_at c,
                          length (filter (\<lambda>m. m_conversation_id m = c_id c) ms)))
                 (filter (\<lambda>c. c_user_id c = uid) cs))"
proof -
  let ?own = "filter (\<lambda>c. c_user_id c = uid) cs"
  let ?J = "left_join ?own ms"
  let ?keys = "remdups (map (\<lambda>(c, m). c_id c) ?J)"
  let ?g = "\<lambda>k. select_history_row (filter (\<lambda>(c, m). c_id c = k) ?J)"
  let ?e = "\<lambda>c. (c_id c, c_model_name c, c_domain c, c_title c, c_created_at c,
                          length (filter (\<lambda>m. m_conversation_id m = c_id c) ms))"
  have d: "distinct (map c_id ?own)"
    using assms by (simp add: distinct_map_filter)
  have s: "set ?keys = set (map c_id ?own)"
    by (simp add: keys_left_join)
  have "distinct ?keys" by simp
  from set_eq_iff_mset_eq_distinct [OF this d] s
  have k: "mset ?keys = mset (map c_id ?own)" by blast
  have g: "?g (c_id c) = ?e c" if "c \<in> set ?own" for c
  proof -
    have "filter (\<lambda>x. c_id x = c_id c) ?own = [c]"
      using d that by (rule filter_id_distinct)
    then have "filter (\<lambda>(c', m). c_id c' = c_id c) ?J = left_join_rows c ms"
      by (simp only: filter_key_left_join) simp
    then show ?thesis
      by (simp only: select_left_join_rows)
  qed
  have "mset (map ?g ?keys) = image_mset ?g (mset ?keys)" by simp
  also have "\<dots> = image_mset ?g (mset (map c_id ?own))" by (simp only: k)
  also have "\<dots> = mset (map (\<lambda>c. ?g (c_id c)) ?own)" by (simp add: multiset.map_comp o_def)
  also have "\<dots> = mset (map ?e ?own)"
    using g by (auto intro!: arg_cong [where f = mset] map_cong simp del: mset_map)
  finally show ?thesis
    by (simp add: group_by_c_id_def filter_owner_left_join comp_def)
qed

lemma mset_order_by_desc: "mset (order_by_desc key rows) = mset rows"
  by (simp add: order_by_desc_def)

lemma sorted_order_by_desc: "sorted (rev (map key (order_by_desc key rows)))"
  by (simp add: order_by_desc_def rev_map [symmetric])

lemma history_created_at_eq:
  "history_created_at = (\<lambda>(i, mn, d, t, created_at, n). created_at)"
  by (auto simp: history_created_at_def fun_eq_iff)

lemma transcript_created_at_eq:
  "transcript_created_at = (\<lambda>(role, content, created_at). created_at)"
  by (auto simp: transcript_created_at_def fun_eq_iff)

text \<open>
  Claim C9. For a database whose conversation ids are distinct (they are the primary key),
  the history page of a user lists exactly the conversations that user owns, each once,
  with the number of messages of that conversation, in descending order of creation time; a
  conversation without messages is listed with the count 0.
\<close>

theorem history_lists_owned_conversations:
  assumes "distinct (map c_id (conversations db))"
  shows "\<exists>rows. history (Some uid) db = Render_history rows
           \<and> mset rows =
               mset (map (\<lambda>c. (c_id c, c_model_name c, c_domain c, c_title c, c_created_at c,
                                length (filter (\<lambda>m. m_conversation_id m = c_id c)
                                          (messages db))))
                       (filter (\<lambda>c. c_user_id c = uid) (conversations db)))
           \<and> sorted (rev (map (\<lambda>(i, mn, d, t, created_at, n). created_at) rows))
           \<and> (\<forall>c \<in> set (conversations db).
                 c_user_id c = uid
                 \<and> filter (\<lambda>m. m_conversation_id m = c_id c) (messages db) = [] \<longrightarrow>
                 (c_id c, c_model_name c, c_domain c, c_title c, c_created_at c, 0)
                   \<in> set rows)"
proof -
  let ?e = "\<lambda>c. (c_id c, c_model_name c, c_domain c, c_title c, c_created_at c,
                  length (filter (\<lambda>m. m_conversation_id m = c_id c) (messages db)))"
  let ?own = "filter (\<lambda>c. c_user_id c = uid) (conversations db)"
  let ?grouped = "map select_history_row
                    (group_by_c_id
                       (filter (\<lambda>(c, m). c_user_id c = uid)
                          (left_join (conversations db) (messages db))))"
  let ?rows = "order_by_desc history_created_at ?grouped"
  have h: "history (Some uid) db = Render_history ?rows"
    by (simp add: history_def)
  have m: "mset ?rows = mset (map ?e ?own)"
    by (simp only: mset_order_by_desc history_groups [OF assms])
  have s: "sorted (rev (map (\<lambda>(i, mn, d, t, created_at, n). created_at) ?rows))"
    using sorted_order_by_desc [of history_created_at ?grouped]
    by (simp only: history_created_at_eq)
  have z: "(c_id c, c_model_name c, c_domain c, c_title c, c_created_at c, 0) \<in> set ?rows"
    if "c \<in> set (conversations db)" and "c_user_id c = uid"
      and "filter (\<lambda>m. m_conversation_id m = c_id c) (messages db) = []" for c
  proof -
    from that have "c \<in> set ?own" by simp
    then have "?e c \<in> set (map ?e ?own)" by (simp only: set_map) (rule imageI)
    with that(3) have "(c_id c, c_model_name c, c_domain c, c_title c, c_created_at c, 0)
                         \<in> set (map ?e ?own)"
      by simp
    with mset_eq_setD [OF m] show ?thesis by simp
  qed
  from h m s z show ?thesis by blast
qed

theorem history_lists_owned_conversations_witness:
  "distinct (map c_id (conversations db_history))
   \<and> history (Some 1) db_history =
       Render_history
          [(3, ''Jayasimma/creaton-ai'', ''coding'', ''empty'', 200, 0),
           (1, ''Jayasimma/gennai'', ''agriculture'', ''first'', 100, 2)]
   \<and> filter (\<lambda>c. c_user_id c = 1) (conversations db_history) =
       [\<lparr>c_id = 1, c_user_id = 1, c_model_name = ''Jayasimma/gennai'',
          c_domain = ''agriculture'', c_title = ''first'', c_created_at = 100\<rparr>,
        \<lparr>c_id = 3, c_user_id = 1, c_model_name = ''Jayasimma/creaton-ai'',
          c_domain = ''coding'', c_title = ''empty'', c_created_at = 200\<rparr>]
   \<and> sorted (rev [200, 100 :: nat])
   \<and> history (Some 1) db_history \<noteq>
       Render_history
          [(1, ''Jayasimma/gennai'', ''agriculture'', ''first'', 100, 2),
           (3, ''Jayasimma/creaton-ai'', ''coding'', ''empty'', 200, 0)]"
proof -
  have d: "distinct (map c_id (conversations db_history))"
    by (simp add: db_history_def)
  have h: "history (Some 1) db_history =
       Render_history
          [(3, ''Jayasimma/creaton-ai'', ''coding'', ''empty'', 200, 0),
           (1, ''Jayasimma/gennai'', ''agriculture'', ''first'', 100, 2)]"
    by (simp add: history_def order_by_desc_def left_join_def left_join_rows_def
        group_by_c_id_def select_history_row_def count_m_id_def history_created_at_def
        db_history_def)
  have o: "filter (\<lambda>c. c_user_id c = 1) (conversations db_history) =
       [\<lparr>c_id = 1, c_user_id = 1, c_model_name = ''Jayasimma/gennai'',
          c_domain = ''agriculture'', c_title = ''first'', c_created_at = 100\<rparr>,
        \<lparr>c_id = 3, c_user_id = 1, c_model_name = ''Jayasimma/creaton-ai'',
          c_domain = ''coding'', c_title = ''empty'', c_created_at = 200\<rparr>]"
    by (simp add: db_history_def)
  have n: "history (Some 1) db_history \<noteq>
       Render_history
          [(1, ''Jayasimma/gennai'', ''agriculture'', ''first'', 100, 2),
           (3, ''Jayasimma/creaton-ai'', ''coding'', ''empty'', 200, 0)]"
  proof
    assume a: "history (Some 1) db_history =
       Render_history
          [(1, ''Jayasimma/gennai'', ''agriculture'', ''first'', 100, 2),
           (3, ''Jayasimma/creaton-ai'', ''coding'', ''empty'', 200, 0)]"
    from history_lists_owned_conversations [OF d, of 1] a
    have "sorted (rev (map (\<lambda>(i, mn, d, t, created_at, n). created_at)
            [(1 :: int, ''Jayasimma/gennai'', ''agriculture'', ''first'', 100 :: nat, 2 :: nat),
             (3, ''Jayasimma/creaton-ai'', ''coding'', ''empty'', 200, 0)]))"
      by auto
    then show False by simp
  qed
  from d h o n show ?thesis by simp
qed

subsection \<open>The transcript of a conversation\<close>

text \<open>
  Claim C5, as stated: the transcript is ordered by creation time with ties in insertion
  order, so that the displayed order always is the order of insertion. The creation time is
  the wall clock of the insert. Here the clock is set back between the two inserts of one
  turn (the user message is stamped 200, the assistant message 100): the turn leaves the
  messages 1 and 2 in this order in the table, and the page shows the assistant message
  first.
\<close>

theorem view_conversation_after_clock_step:
  "snd (api_chat env_step (Some 1) db_empty rq_hello) = db_step
   \<and> map m_id (messages db_step) = [1, 2]
   \<and> map (\<lambda>m. (m_role m, m_content m, m_created_at m))
         (filter (\<lambda>m. m_conversation_id m = 1) (messages db_step))
       = [(''user'', ''hello'', 200), (''assistant'', ''Hello!'', 100)]
   \<and> view_conversation (Some 1) db_step 1 =
       Render_view_conversation
         \<lparr>c_id = 1, c_user_id = 1, c_model_name = ''Jayasimma/gennai'',
           c_domain = ''agriculture'', c_title = ''hello'', c_created_at = 200\<rparr>
         [(''assistant'', ''Hello!'', 100), (''user'', ''hello'', 200)]"
  by (simp add: api_chat_def api_chat_begin_def new_conversation_def insert_conversation_def
      insert_message_def connect_def commit_def close_def make_title_def next_rowid_def
      env_step_def db_empty_def rq_hello_def db_step_def Let_def
      view_conversation_def select_transcript_def order_by_asc_def transcript_created_at_def)

text \<open>
  Claim C5, amended: for a conversation the user owns, the page shows exactly the messages
  of that conversation, in ascending order of creation time, messages with equal creation
  times in insertion order. The displayed order is the insertion order whenever the creation
  times do not decrease in insertion order.
\<close>

theorem view_conversation_sorted_by_created_at:
  assumes "find (\<lambda>c. c_id c = cid \<and> c_user_id c = uid) (conversations db) = Some c"
  shows "\<exists>ms. view_conversation (Some uid) db cid = Render_view_conversation c ms
           \<and> mset ms = mset (map (\<lambda>m. (m_role m, m_content m, m_created_at m))
                               (filter (\<lambda>m. m_conversation_id m = cid) (messages db)))
           \<and> sorted (map (\<lambda>(role, content, created_at). created_at) ms)
           \<and> (\<forall>t. filter (\<lambda>(role, content, created_at). created_at = t) ms =
                    filter (\<lambda>(role, content, created_at). created_at = t)
                      (map (\<lambda>m. (m_role m, m_content m, m_created_at m))
                         (filter (\<lambda>m. m_conversation_id m = cid) (messages db))))
           \<and> (sorted (map m_created_at
                         (filter (\<lambda>m. m_conversation_id m = cid) (messages db))) \<longrightarrow>
                ms = map (\<lambda>m. (m_role m, m_content m, m_created_at m))
                       (filter (\<lambda>m. m_conversation_id m = cid) (messages db)))"
proof -
  let ?k = "\<lambda>(role :: string, content :: string, created_at :: nat). created_at"
  let ?t = "map (\<lambda>m. (m_role m, m_content m, m_created_at m))
              (filter (\<lambda>m. m_conversation_id m = cid) (messages db))"
  let ?ms = "sort_key ?k ?t"
  have v: "view_conversation (Some uid) db cid = Render_view_conversation c ?ms"
    using assms
    by (simp add: view_conversation_def order_by_asc_def select_transcript_def
        transcript_created_at_eq)
  have m: "mset ?ms = mset ?t" by (rule mset_sort)
  have s: "sorted (map ?k ?ms)" by (rule sorted_sort_key)
  have f: "filter (\<lambda>(role, content, created_at). created_at = t) ?ms =
           filter (\<lambda>(role, content, created_at). created_at = t) ?t" for t
    using sort_key_stable [of ?k t ?t] by (simp add: case_prod_unfold)
  have k: "map ?k ?t = map m_created_at
                         (filter (\<lambda>m. m_conversation_id m = cid) (messages db))"
    by (simp add: comp_def)
  have i: "?ms = ?t"
    if "sorted (map m_created_at (filter (\<lambda>m. m_conversation_id m = cid) (messages db)))"
    using that by (intro sort_key_id_if_sorted) (simp only: k)
  from v m s f i show ?thesis by blast
qed

theorem view_conversation_sorted_by_created_at_witness:
  "find (\<lambda>c. c_id c = 1 \<and> c_user_id c = 1) (conversations db_ties) =
     Some \<lparr>c_id = 1, c_user_id = 1, c_model_name = ''Jayasimma/gennai'',
           c_domain = ''agriculture'', c_title = ''first'', c_created_at = 100\<rparr>
   \<and> sorted (map m_created_at (filter (\<lambda>m. m_conversation_id m = 1) (messages db_ties)))
   \<and> view_conversation (Some 1) db_ties 1 =
       Render_view_conversation
          \<lparr>c_id = 1, c_user_id = 1, c_model_name = ''Jayasimma/gennai'',
            c_domain = ''agriculture'', c_title = ''first'', c_created_at = 100\<rparr>
          [(''user'', ''first'', 100), (''assistant'', ''second'', 100)]"
proof -
  have f: "find (\<lambda>c. c_id c = 1 \<and> c_user_id c = 1) (conversations db_ties) =
     Some \<lparr>c_id = 1, c_user_id = 1, c_model_name = ''Jayasimma/gennai'',
           c_domain = ''agriculture'', c_title = ''first'', c_created_at = 100\<rparr>"
    by (simp add: db_ties_def)
  have t: "filter (\<lambda>m. m_conversation_id m = 1) (messages db_ties) = messages db_ties"
    by (simp add: db_ties_def)
  have s: "sorted (map m_created_at (filter (\<lambda>m. m_conversation_id m = 1) (messages db_ties)))"
    by (simp add: db_ties_def)
  have p: "map (\<lambda>m. (m_role m, m_content m, m_created_at m))
             (filter (\<lambda>m. m_conversation_id m = 1) (messages db_ties)) =
           [(''user'', ''first'', 100), (''assistant'', ''second'', 100)]"
    by (simp add: db_ties_def)
  from view_conversation_sorted_by_created_at [OF f] s
  have "view_conversation (Some 1) db_ties 1 =
       Render_view_conversation
          \<lparr>c_id = 1, c_user_id = 1, c_model_name = ''Jayasimma/gennai'',
            c_domain = ''agriculture'', c_title = ''first'', c_created_at = 100\<rparr>
          (map (\<lambda>m. (m_role m, m_content m, m_created_at m))
             (filter (\<lambda>m. m_conversation_id m = 1) (messages db_ties)))"
    by auto
  with f s p show ?thesis by simp
qed

end
